theory Spec2Isabelle
  imports Complex_Main "HOL-Library.Word"
begin

section \<open>Values of the Python program\<close>

text \<open>
  A Python \<^verbatim>\<open>float\<close>: a finite value (every finite double is a real number, and the
  comparisons below are exact on them), the two infinities, or NaN. Only comparisons
  are modelled; the program does no float arithmetic in the functions embedded here.
\<close>

datatype pyfloat = Finite real | PosInf | NegInf | NaN

text \<open>Python's \<^verbatim>\<open>a > b\<close> on floats: false as soon as one side is NaN.\<close>

fun float_gt :: "pyfloat \<Rightarrow> pyfloat \<Rightarrow> bool" where
  "float_gt NaN b = False"
| "float_gt a NaN = False"
| "float_gt (Finite x) (Finite y) = (y < x)"
| "float_gt (Finite x) PosInf = False"
| "float_gt (Finite x) NegInf = True"
| "float_gt PosInf PosInf = False"
| "float_gt PosInf b = True"
| "float_gt NegInf b = False"

text \<open>Python's \<^verbatim>\<open>a >= b\<close> and \<^verbatim>\<open>a < b\<close> on floats.\<close>

fun float_ge :: "pyfloat \<Rightarrow> pyfloat \<Rightarrow> bool" where
  "float_ge NaN b = False"
| "float_ge a NaN = False"
| "float_ge (Finite x) (Finite y) = (y \<le> x)"
| "float_ge (Finite x) PosInf = False"
| "float_ge (Finite x) NegInf = True"
| "float_ge PosInf b = True"
| "float_ge NegInf NegInf = True"
| "float_ge NegInf b = False"

definition float_lt :: "pyfloat \<Rightarrow> pyfloat \<Rightarrow> bool" where
  "float_lt a b = float_gt b a"

text \<open>
  A JSON scalar, the value of a feature or of a table cell. Nested mappings and lists
  as feature values (which \<^verbatim>\<open>json_normalize\<close> would flatten under dotted names) are
  outside this model.
\<close>

datatype pyval = VFloat pyfloat | VInt int | VStr string | VBool bool | VNone

text \<open>
  A Python \<^verbatim>\<open>dict\<close> with string keys, in insertion order: an association list whose
  keys are distinct. \<open>dict_set\<close> is \<^verbatim>\<open>d[k] = v\<close> (an existing key keeps its place),
  \<open>dict_update\<close> is \<^verbatim>\<open>{**d, **e}\<close>.
\<close>

type_synonym pydict = "(string \<times> pyval) list"

fun dict_set :: "string \<Rightarrow> pyval \<Rightarrow> pydict \<Rightarrow> pydict" where
  "dict_set k v [] = [(k, v)]"
| "dict_set k v ((k', v') # d) = (if k' = k then (k, v) # d else (k', v') # dict_set k v d)"

fun dict_update :: "pydict \<Rightarrow> pydict \<Rightarrow> pydict" where
  "dict_update d [] = d"
| "dict_update d ((k, v) # e) = dict_update (dict_set k v d) e"

section \<open>Schemas (schemas.py)\<close>

datatype Sex = Male | Female | Other

text \<open>\<^verbatim>\<open>RiskLevel = Literal["low", "medium", "high"]\<close>: risk levels are Python strings.\<close>

definition RiskLevel :: "string set" where
  "RiskLevel = {''low'', ''medium'', ''high''}"

record PredictionInput =
  amount :: pyfloat
  category :: string
  features :: "pydict option"

record TriageInput =
  name :: "string option"
  age :: int
  sex :: Sex
  fever :: bool
  cough :: bool
  shortness_of_breath :: bool
  antecedents :: "string option"

section \<open>Rule engine (model\_utils.py)\<close>

definition simple_risk_model :: "'a PredictionInput_scheme \<Rightarrow> string" where
  "simple_risk_model payload =
     (if float_ge (amount payload) (Finite 10000) then ''high''
      else if float_ge (amount payload) (Finite 1000) then ''medium''
      else ''low'')"

definition triage_risk_model :: "TriageInput \<Rightarrow> string" where
  "triage_risk_model payload =
     (if shortness_of_breath payload then ''high''
      else if age payload \<ge> 75 \<and> fever payload then ''high''
      else if age payload \<ge> 65 \<or> (fever payload \<and> cough payload) then ''medium''
      else ''low'')"

text \<open>
  The spec's reading of the triage rules: an ordered decision list, evaluated
  first match wins, with a default when no rule fires.
\<close>

fun first_match :: "(('a \<Rightarrow> bool) \<times> 'b) list \<Rightarrow> 'b \<Rightarrow> 'a \<Rightarrow> 'b" where
  "first_match [] dflt x = dflt"
| "first_match ((c, r) # rules) dflt x = (if c x then r else first_match rules dflt x)"

definition triage_rules_spec :: "((TriageInput \<Rightarrow> bool) \<times> string) list" where
  "triage_rules_spec =
     [(\<lambda>p. shortness_of_breath p, ''high''),
      (\<lambda>p. age p \<ge> 75 \<and> fever p, ''high''),
      (\<lambda>p. age p \<ge> 65 \<or> (fever p \<and> cough p), ''medium'')]"

section \<open>Exceptions and bytes\<close>

text \<open>
  The exceptions (subclasses of \<^verbatim>\<open>Exception\<close>) that the embedded code raises or lets
  through. \<open>LibraryError\<close> stands for whatever joblib, pandas or scikit-learn raise.
\<close>

datatype exn = KeyError string | RuntimeError string | ImportError string
  | ValidationError string | LibraryError string

type_synonym bytes = "8 word list"

section \<open>Storage (database.py)\<close>

text \<open>
  The rows of the tables \<^verbatim>\<open>models\<close> and \<^verbatim>\<open>predictions\<close>. Timestamps are integers
  (microseconds); \<open>m_metrics\<close> holds the score and the parameters of the JSON column.
\<close>

record ModelArtifact =
  m_id :: int
  m_name :: string
  m_created_at :: int
  m_metrics :: "pyfloat \<times> pydict"
  m_artifact :: bytes
  m_active :: bool

record Prediction =
  p_id :: int
  p_risk_level :: string
  p_input_data :: PredictionInput
  p_created_at :: int

text \<open>The committed state of the database: each table in insertion order.\<close>

record database =
  models :: "ModelArtifact list"
  predictions :: "Prediction list"

text \<open>The integer primary key given to an inserted row: one more than the largest.\<close>

definition next_id :: "int list \<Rightarrow> int" where
  "next_id ids = fold max ids 0 + 1"

section \<open>Request and response schemas (schemas.py)\<close>

record TrainRecord = PredictionInput +
  label :: string

record TrainRequest =
  records :: "TrainRecord list"
  scoring :: "string option"
  cv_folds :: "int option"

record TrainResponse =
  best_model_name :: string
  best_score :: pyfloat
  best_params :: pydict
  model_id :: int

record PredictionResponse =
  risk_level :: string
  record_id :: int
  created_at :: int

section \<open>Tables (pandas)\<close>

text \<open>
  A \<^verbatim>\<open>DataFrame\<close> is the list of its columns in order, each a name with its values;
  pandas allows two columns of one name, so the names need not be distinct.
\<close>

type_synonym dataframe = "(string \<times> pyval list) list"

text \<open>\<^verbatim>\<open>pd.DataFrame([row])\<close>: one column per key of the row.\<close>

definition DataFrame_row :: "pydict \<Rightarrow> dataframe" where
  "DataFrame_row row = map (\<lambda>(k, v). (k, [v])) row"

text \<open>The keys of a sequence of mappings, each once, in order of first appearance.\<close>

definition first_seen :: "string list \<Rightarrow> string list" where
  "first_seen ks = fold (\<lambda>k acc. if k \<in> set acc then acc else acc @ [k]) ks []"

text \<open>
  The dtype pandas infers for a column built from mappings. A cell is a value, or
  absent (the key is missing in that row). A column of numbers only (integers, floats,
  \<^verbatim>\<open>None\<close> and absent cells; no string, no bool) that holds a float or an absent
  cell, or both \<^verbatim>\<open>None\<close> and an integer, becomes float64: integers are converted
  (exactly here; a double rounds integers beyond \<open>2 ^ 53\<close>), \<^verbatim>\<open>None\<close> and absent cells
  become NaN. Any other column keeps its values, an absent cell being NaN.
\<close>

fun is_numeric_cell :: "pyval option \<Rightarrow> bool" where
  "is_numeric_cell None = True"
| "is_numeric_cell (Some (VInt i)) = True"
| "is_numeric_cell (Some (VFloat f)) = True"
| "is_numeric_cell (Some VNone) = True"
| "is_numeric_cell (Some v) = False"

fun is_float_cell :: "pyval option \<Rightarrow> bool" where
  "is_float_cell None = True"
| "is_float_cell (Some (VFloat f)) = True"
| "is_float_cell (Some v) = False"

fun is_int_cell :: "pyval option \<Rightarrow> bool" where
  "is_int_cell (Some (VInt i)) = True"
| "is_int_cell c = False"

fun to_float64 :: "pyval option \<Rightarrow> pyval" where
  "to_float64 None = VFloat NaN"
| "to_float64 (Some (VInt i)) = VFloat (Finite (of_int i))"
| "to_float64 (Some VNone) = VFloat NaN"
| "to_float64 (Some v) = v"

definition convert_objects :: "pyval option list \<Rightarrow> pyval list" where
  "convert_objects cells =
     (if list_all is_numeric_cell cells
         \<and> (list_ex is_float_cell cells
              \<or> (list_ex (\<lambda>c. c = Some VNone) cells \<and> list_ex is_int_cell cells))
      then map to_float64 cells
      else map (\<lambda>c. case c of None \<Rightarrow> VFloat NaN | Some v \<Rightarrow> v) cells)"

text \<open>
  \<^verbatim>\<open>pd.json_normalize\<close> on a series of flat mappings: one column per key, in order of
  first appearance, with the dtype inferred as above. An entry that is \<^verbatim>\<open>None\<close>
  (which \<^verbatim>\<open>fillna({})\<close> leaves in place) is read as a mapping with no key.
\<close>

definition json_normalize :: "pydict option list \<Rightarrow> dataframe" where
  "json_normalize series =
     (let rows = map (\<lambda>f. case f of None \<Rightarrow> [] | Some d \<Rightarrow> d) series;
          cols = first_seen (concat (map (map fst) rows))
      in map (\<lambda>c. (c, convert_objects (map (\<lambda>r. map_of r c) rows))) cols)"

section \<open>Training utilities (model\_utils.py)\<close>

text \<open>
  \<open>_records_to_dataframe\<close>. The frame built from the dumped records has the columns
  amount, category, features and label; the label column is popped (a \<^verbatim>\<open>KeyError\<close>
  when there is no record, hence no column), the features column is popped, normalised
  and put back beside the base columns with \<^verbatim>\<open>pd.concat(axis=1)\<close>, which appends the
  columns and keeps both of two columns that share a name.
\<close>

definition records_to_dataframe :: "TrainRecord list \<Rightarrow> exn + (dataframe \<times> string list)" where
  "records_to_dataframe recs =
     (if recs = [] then Inl (KeyError ''label'')
      else
        let df = [(''amount'', map (\<lambda>r. VFloat (amount r)) recs),
                  (''category'', map (\<lambda>r. VStr (category r)) recs)];
            y = map label recs;
            feat_series = map features recs;
            feat_df = json_normalize feat_series
        in Inr (df @ feat_df, y))"

record preprocessor =
  numeric_cols :: "string list"
  categorical_cols :: "string list"

text \<open>
  \<open>_build_preprocessor\<close>; its first argument is pandas' \<^verbatim>\<open>is_numeric_dtype(df[c])\<close>.
\<close>

definition build_preprocessor :: "(dataframe \<Rightarrow> string \<Rightarrow> bool) \<Rightarrow> dataframe \<Rightarrow> preprocessor" where
  "build_preprocessor is_numeric df =
     (let numeric = filter (is_numeric df) (map fst df);
          categorical = filter (\<lambda>c. c \<notin> set numeric) (map fst df)
      in \<lparr>numeric_cols = numeric, categorical_cols = categorical\<rparr>)"

text \<open>The three learners, each with the fixed configuration the source gives it.\<close>

datatype clf = RandomForestClassifier | XGBClassifier | LGBMClassifier

type_synonym param_grid = "(string \<times> pyval list) list"

definition grid_rf :: "clf \<times> param_grid" where
  "grid_rf =
     (RandomForestClassifier,
      [(''clf__n_estimators'', [VInt 100, VInt 300]),
       (''clf__max_depth'', [VNone, VInt 10, VInt 20])])"

text \<open>
  \<open>_grid_xgb\<close> and \<open>_grid_lgbm\<close>: the argument is the outcome of the import; an
  exception of the import is caught and answered with no learner and no grid.
\<close>

definition grid_xgb :: "exn + unit \<Rightarrow> clf option \<times> param_grid" where
  "grid_xgb imported =
     (case imported of
        Inl e \<Rightarrow> (None, [])
      | Inr u \<Rightarrow>
          (Some XGBClassifier,
           [(''clf__n_estimators'', [VInt 200, VInt 400]),
            (''clf__max_depth'', [VInt 3, VInt 6]),
            (''clf__learning_rate'', [VFloat (Finite 0.05), VFloat (Finite 0.1)])]))"

definition grid_lgbm :: "exn + unit \<Rightarrow> clf option \<times> param_grid" where
  "grid_lgbm imported =
     (case imported of
        Inl e \<Rightarrow> (None, [])
      | Inr u \<Rightarrow>
          (Some LGBMClassifier,
           [(''clf__n_estimators'', [VInt 200, VInt 400]),
            (''clf__max_depth'', [VInt (-1), VInt 10, VInt 20]),
            (''clf__learning_rate'', [VFloat (Finite 0.05), VFloat (Finite 0.1)])]))"

text \<open>A \<^verbatim>\<open>GridSearchCV\<close> over the pipeline of the preprocessor and one learner.\<close>

record grid_search =
  gs_pre :: preprocessor
  gs_clf :: clf
  gs_param_grid :: param_grid
  gs_cv :: "int option"
  gs_scoring :: "string option"

text \<open>What a fitted search holds: its \<^verbatim>\<open>best_score_\<close>, \<^verbatim>\<open>best_params_\<close> and \<^verbatim>\<open>best_estimator_\<close>.\<close>

record 'est fit_result =
  gs_best_score :: pyfloat
  gs_best_params :: pydict
  gs_best_estimator :: 'est

text \<open>
  The libraries the code calls, which are not part of the repository: pandas' dtype
  test, the two optional imports, the fit of a grid search on a table and its labels,
  joblib's dump and load, and \<^verbatim>\<open>str(model.predict(X_df)[0])\<close> of a loaded model.
  Each may raise, except the dtype test.
\<close>

record 'est libs =
  is_numeric_dtype :: "dataframe \<Rightarrow> string \<Rightarrow> bool"
  import_xgboost :: "exn + unit"
  import_lightgbm :: "exn + unit"
  gs_fit :: "grid_search \<Rightarrow> dataframe \<Rightarrow> string list \<Rightarrow> exn + 'est fit_result"
  joblib_dump :: "'est \<Rightarrow> exn + bytes"
  joblib_load :: "bytes \<Rightarrow> exn + 'est"
  model_predict :: "'est \<Rightarrow> dataframe \<Rightarrow> exn + string"

text \<open>The list \<^verbatim>\<open>grids\<close> that \<open>train_select_serialize\<close> builds, in registration order.\<close>

definition grids :: "'est libs \<Rightarrow> preprocessor \<Rightarrow> string option \<Rightarrow> int option
    \<Rightarrow> (string \<times> grid_search) list" where
  "grids L pre scoring' cv =
     (let (rf, rf_params) = grid_rf;
          g1 = [(''RandomForest'', \<lparr>gs_pre = pre, gs_clf = rf, gs_param_grid = rf_params,
                   gs_cv = cv, gs_scoring = scoring'\<rparr>)];
          (xgb, xgb_params) = grid_xgb (import_xgboost L);
          g2 = (case xgb of None \<Rightarrow> g1
                | Some c \<Rightarrow> g1 @ [(''XGBoost'', \<lparr>gs_pre = pre, gs_clf = c,
                   gs_param_grid = xgb_params, gs_cv = cv, gs_scoring = scoring'\<rparr>)]);
          (lgbm, lgbm_params) = grid_lgbm (import_lightgbm L);
          g3 = (case lgbm of None \<Rightarrow> g2
                | Some c \<Rightarrow> g2 @ [(''LightGBM'', \<lparr>gs_pre = pre, gs_clf = c,
                   gs_param_grid = lgbm_params, gs_cv = cv, gs_scoring = scoring'\<rparr>)])
      in g3)"

text \<open>
  The selection loop of \<open>train_select_serialize\<close>. The running best is the tuple
  (best\_name, best\_score, best\_params, best\_estimator); a fit that raises ends the
  loop with its exception.
\<close>

type_synonym 'est best = "string \<times> pyfloat \<times> pydict \<times> 'est option"

fun select_loop :: "(grid_search \<Rightarrow> exn + 'est fit_result) \<Rightarrow> (string \<times> grid_search) list
    \<Rightarrow> 'est best \<Rightarrow> exn + 'est best" where
  "select_loop fit [] best = Inr best"
| "select_loop fit ((name', gs) # rest) (best_name, best_score', best_params', best_estimator) =
     (case fit gs of
        Inl e \<Rightarrow> Inl e
      | Inr r \<Rightarrow>
          if float_gt (gs_best_score r) best_score'
          then select_loop fit rest (name', gs_best_score r, gs_best_params r, Some (gs_best_estimator r))
          else select_loop fit rest (best_name, best_score', best_params', best_estimator))"

definition train_select_serialize :: "'est libs \<Rightarrow> TrainRecord list \<Rightarrow> string option \<Rightarrow> int option
    \<Rightarrow> exn + (string \<times> pyfloat \<times> pydict \<times> bytes)" where
  "train_select_serialize L recs scoring' cv =
     (case records_to_dataframe recs of
        Inl e \<Rightarrow> Inl e
      | Inr (X_df, y) \<Rightarrow>
          let pre = build_preprocessor (is_numeric_dtype L) X_df in
          (case select_loop (\<lambda>gs. gs_fit L gs X_df y) (grids L pre scoring' cv)
                  ('''', NegInf, [], None) of
             Inl e \<Rightarrow> Inl e
           | Inr (best_name, best_score', best_params', best_estimator) \<Rightarrow>
               (case best_estimator of
                  None \<Rightarrow> Inl (RuntimeError ''No estimator was trained successfully'')
                | Some est \<Rightarrow>
                    (case joblib_dump L est of
                       Inl e \<Rightarrow> Inl e
                     | Inr artifact_bytes \<Rightarrow>
                         Inr (best_name, best_score', best_params', artifact_bytes)))))"

definition load_model_from_bytes :: "'est libs \<Rightarrow> bytes \<Rightarrow> exn + 'est" where
  "load_model_from_bytes L artifact = joblib_load L artifact"

section \<open>Routes (main.py)\<close>

text \<open>
  The query of \<open>predict\<close>: the rows with \<^verbatim>\<open>active == True\<close>, ordered by
  \<^verbatim>\<open>created_at\<close> descending, and the first of them if there is one. Rows of equal
  timestamp are kept in table order here; SQL leaves their order open.
\<close>

definition active_model_query :: "ModelArtifact list \<Rightarrow> ModelArtifact option" where
  "active_model_query ms =
     (case sort_key (\<lambda>m. - m_created_at m) (filter m_active ms) of
        [] \<Rightarrow> None
      | m # rest \<Rightarrow> Some m)"

text \<open>The row \<^verbatim>\<open>{**data, **features}\<close> of \<open>predict\<close>, features popped from the dump.\<close>

definition predict_row :: "PredictionInput \<Rightarrow> pydict" where
  "predict_row payload =
     (let data = [(''amount'', VFloat (amount payload)), (''category'', VStr (category payload))];
          feats = (case features payload of None \<Rightarrow> [] | Some f \<Rightarrow> f)
      in dict_update data feats)"

text \<open>The body of the \<^verbatim>\<open>try\<close> of \<open>predict\<close>: the risk, or the exception it raises.\<close>

definition predict_try :: "'est libs \<Rightarrow> ModelArtifact option \<Rightarrow> PredictionInput \<Rightarrow> exn + string" where
  "predict_try L active_model payload =
     (case active_model of
        Some am \<Rightarrow>
          (case load_model_from_bytes L (m_artifact am) of
             Inl e \<Rightarrow> Inl e
           | Inr model \<Rightarrow>
               (case model_predict L model (DataFrame_row (predict_row payload)) of
                  Inl e \<Rightarrow> Inl e
                | Inr risk \<Rightarrow>
                    if risk \<notin> {''low'', ''medium'', ''high''}
                    then Inr (simple_risk_model payload)
                    else Inr risk))
      | None \<Rightarrow> Inr (simple_risk_model payload))"

text \<open>
  \<open>predict\<close>: the \<^verbatim>\<open>except Exception\<close> branch answers with the rule engine; the
  prediction is stored; building the response validates the risk level against
  \<open>RiskLevel\<close>.
\<close>

definition predict :: "'est libs \<Rightarrow> int \<Rightarrow> PredictionInput \<Rightarrow> database
    \<Rightarrow> (exn + PredictionResponse) \<times> database" where
  "predict L now payload db =
     (let active_model = active_model_query (models db);
          risk = (case predict_try L active_model payload of
                    Inl e \<Rightarrow> simple_risk_model payload
                  | Inr r \<Rightarrow> r);
          row = \<lparr>p_id = next_id (map p_id (predictions db)), p_risk_level = risk,
                 p_input_data = payload, p_created_at = now\<rparr>;
          db' = db\<lparr>predictions := predictions db @ [row]\<rparr>
      in if risk \<in> RiskLevel
         then (Inr \<lparr>risk_level = risk, record_id = p_id row, created_at = p_created_at row\<rparr>, db')
         else (Inl (ValidationError ''risk_level''), db'))"

text \<open>
  \<open>train\<close>: nothing is written before \<open>train_select_serialize\<close> has returned; then
  every active row is set inactive and the new row is added active, in one commit.
\<close>

definition train :: "'est libs \<Rightarrow> int \<Rightarrow> TrainRequest \<Rightarrow> database
    \<Rightarrow> (exn + TrainResponse) \<times> database" where
  "train L now request db =
     (case train_select_serialize L (records request) (scoring request) (cv_folds request) of
        Inl e \<Rightarrow> (Inl e, db)
      | Inr (best_name, best_score', best_params', artifact) \<Rightarrow>
          let updated = map (\<lambda>m. if m_active m then m\<lparr>m_active := False\<rparr> else m) (models db);
              model_row = \<lparr>m_id = next_id (map m_id (models db)), m_name = best_name,
                 m_created_at = now, m_metrics = (best_score', best_params'),
                 m_artifact = artifact, m_active = True\<rparr>
          in (Inr \<lparr>best_model_name = best_name, best_score = best_score',
                 best_params = best_params', model_id = m_id model_row\<rparr>,
              db\<lparr>models := updated @ [model_row]\<rparr>))"

section \<open>The hypothesis of a failed training\<close>

text \<open>
  No candidate produces a fitted result: the records make no table, or every candidate's
  fit raises or ends with a score that does not exceed the initial minus infinity.
\<close>

definition no_fitted_result :: "'est libs \<Rightarrow> TrainRecord list \<Rightarrow> string option \<Rightarrow> int option \<Rightarrow> bool" where
  "no_fitted_result L recs scoring' cv =
     (case records_to_dataframe recs of
        Inl e \<Rightarrow> True
      | Inr (X_df, y) \<Rightarrow>
          (\<forall>(n, g) \<in> set (grids L (build_preprocessor (is_numeric_dtype L) X_df) scoring' cv).
             case gs_fit L g X_df y of
               Inl e \<Rightarrow> True
             | Inr r \<Rightarrow> \<not> float_gt (gs_best_score r) NegInf))"

section \<open>Example values\<close>

text \<open>
  A concrete library environment (estimators are stood for by their bytes), records,
  requests and a database with two active artifacts, for evaluating the functions.
\<close>

definition example_fit :: "grid_search \<Rightarrow> dataframe \<Rightarrow> string list \<Rightarrow> exn + bytes fit_result" where
  "example_fit gs X_df y =
     (case gs_clf gs of
        RandomForestClassifier \<Rightarrow>
          Inr \<lparr>gs_best_score = Finite 0.8, gs_best_params = [(''clf__n_estimators'', VInt 100)],
               gs_best_estimator = [1]\<rparr>
      | XGBClassifier \<Rightarrow>
          Inr \<lparr>gs_best_score = Finite 0.9, gs_best_params = [(''clf__max_depth'', VInt 3)],
               gs_best_estimator = [2]\<rparr>
      | LGBMClassifier \<Rightarrow>
          Inr \<lparr>gs_best_score = Finite 0.9, gs_best_params = [(''clf__max_depth'', VInt 10)],
               gs_best_estimator = [3]\<rparr>)"

definition example_libs :: "bytes libs" where
  "example_libs =
     \<lparr>is_numeric_dtype = (\<lambda>df c. c = ''amount''),
      import_xgboost = Inr (),
      import_lightgbm = Inr (),
      gs_fit = example_fit,
      joblib_dump = Inr,
      joblib_load = (\<lambda>b. if b = [] then Inl (LibraryError ''EOFError'') else Inr b),
      model_predict = (\<lambda>m X_df. if m = [2] then Inr ''high''
                        else if m = [3] then Inr ''urgent''
                        else Inl (LibraryError ''predict''))\<rparr>"

definition example_records :: "TrainRecord list" where
  "example_records =
     [\<lparr>amount = Finite 500, category = ''general'', features = Some [(''k'', VStr ''v'')],
       label = ''low''\<rparr>,
      \<lparr>amount = Finite 20000, category = ''general'', features = None, label = ''high''\<rparr>]"

definition example_artifact :: "int \<Rightarrow> int \<Rightarrow> bytes \<Rightarrow> bool \<Rightarrow> ModelArtifact" where
  "example_artifact i t b a =
     \<lparr>m_id = i, m_name = ''RandomForest'', m_created_at = t, m_metrics = (Finite 0.5, []),
      m_artifact = b, m_active = a\<rparr>"

definition example_payload :: PredictionInput where
  "example_payload = \<lparr>amount = Finite 1500, category = ''general'', features = Some [(''foo'', VStr ''bar'')]\<rparr>"

definition example_db :: database where
  "example_db =
     \<lparr>models = [example_artifact 1 10 [2] True, example_artifact 2 20 [] True,
                example_artifact 3 5 [3] False],
      predictions = []\<rparr>"

definition latest_high_db :: database where
  "latest_high_db =
     \<lparr>models = [example_artifact 1 10 [] True, example_artifact 2 20 [2] True,
                example_artifact 3 5 [3] False],
      predictions = []\<rparr>"

definition example_request :: TrainRequest where
  "example_request = \<lparr>records = example_records, scoring = Some ''f1_macro'', cv_folds = Some 3\<rparr>"

definition nan_libs :: "bytes libs" where
  "nan_libs = example_libs
     \<lparr>import_xgboost := Inl (ImportError ''xgboost''),
      gs_fit := (\<lambda>gs X_df y. Inr \<lparr>gs_best_score = NaN, gs_best_params = [], gs_best_estimator = [9]\<rparr>)\<rparr>"

definition rf_only_libs :: "bytes libs" where
  "rf_only_libs = example_libs
     \<lparr>import_xgboost := Inl (ImportError ''No module named xgboost''),
      import_lightgbm := Inl (ImportError ''No module named lightgbm'')\<rparr>"

section \<open>Properties of the rule engine\<close>

lemma float_ge_iff: "float_ge a b \<longleftrightarrow> float_gt a b \<or> (a = b \<and> a \<noteq> NaN)"
  by (cases a; cases b) auto

text \<open>
  C2. For every transaction input whose amount is non-negative (what the schema's
  \<^verbatim>\<open>ge=0\<close> admits: a finite non-negative float or plus infinity),
  \<open>simple_risk_model\<close> answers high exactly from 10000 up, medium on [1000, 10000) and
  low below 1000; 1000 itself is medium and 10000 itself is high; and the three tiers
  partition the inputs: every amount is in one tier and in no second one.
\<close>

theorem simple_risk_model_tiers:
  assumes "float_ge (amount p) (Finite 0)"
  shows "(float_ge (amount p) (Finite 10000) \<longrightarrow> simple_risk_model p = ''high'')
       \<and> (float_ge (amount p) (Finite 1000) \<and> float_lt (amount p) (Finite 10000)
            \<longrightarrow> simple_risk_model p = ''medium'')
       \<and> (float_lt (amount p) (Finite 1000) \<longrightarrow> simple_risk_model p = ''low'')
       \<and> (amount p = Finite 1000 \<longrightarrow> simple_risk_model p = ''medium'')
       \<and> (amount p = Finite 10000 \<longrightarrow> simple_risk_model p = ''high'')
       \<and> (float_ge (amount p) (Finite 10000)
            \<or> (float_ge (amount p) (Finite 1000) \<and> float_lt (amount p) (Finite 10000))
            \<or> float_lt (amount p) (Finite 1000))
       \<and> \<not> (float_ge (amount p) (Finite 10000) \<and> float_lt (amount p) (Finite 10000))
       \<and> \<not> (float_ge (amount p) (Finite 10000) \<and> float_lt (amount p) (Finite 1000))
       \<and> \<not> (float_ge (amount p) (Finite 1000) \<and> float_lt (amount p) (Finite 1000))"
  using assms
  by (cases "amount p") (auto simp: simple_risk_model_def float_lt_def)

theorem simple_risk_model_tiers_witness:
  "float_ge (amount \<lparr>amount = Finite 1000, category = ''general'', features = None\<rparr>) (Finite 0)
   \<and> simple_risk_model \<lparr>amount = Finite 1000, category = ''general'', features = None\<rparr> = ''medium''
   \<and> float_ge (amount \<lparr>amount = Finite 9999.999, category = ''general'', features = None\<rparr>) (Finite 0)
   \<and> simple_risk_model \<lparr>amount = Finite 9999.999, category = ''general'', features = None\<rparr> = ''medium''
   \<and> float_ge (amount \<lparr>amount = PosInf, category = ''general'', features = None\<rparr>) (Finite 0)
   \<and> simple_risk_model \<lparr>amount = PosInf, category = ''general'', features = None\<rparr> = ''high''"
  using simple_risk_model_tiers [of "\<lparr>amount = Finite 1000, category = ''general'', features = None\<rparr>"]
    simple_risk_model_tiers [of "\<lparr>amount = Finite 9999.999, category = ''general'', features = None\<rparr>"]
    simple_risk_model_tiers [of "\<lparr>amount = PosInf, category = ''general'', features = None\<rparr>"]
  by (simp add: float_lt_def)

text \<open>
  C3. \<open>triage_risk_model\<close> is the ordered decision list of the spec, first match wins:
  shortness of breath gives high whatever the other fields are; otherwise age 75 or
  more with fever gives high; otherwise age 65 or more, or fever with cough, gives
  medium; otherwise low. This holds for every age, so in particular for the ages
  0 to 120 that the schema admits. The patient of age 80 with fever alone is high.
\<close>

theorem triage_risk_model_decision_list:
  "triage_risk_model p = first_match triage_rules_spec ''low'' p
   \<and> (shortness_of_breath p \<longrightarrow> triage_risk_model p = ''high'')
   \<and> (\<not> shortness_of_breath p \<and> age p \<ge> 75 \<and> fever p \<longrightarrow> triage_risk_model p = ''high'')
   \<and> (\<not> shortness_of_breath p \<and> \<not> (age p \<ge> 75 \<and> fever p)
        \<and> (age p \<ge> 65 \<or> (fever p \<and> cough p)) \<longrightarrow> triage_risk_model p = ''medium'')
   \<and> (\<not> shortness_of_breath p \<and> \<not> (age p \<ge> 75 \<and> fever p)
        \<and> \<not> (age p \<ge> 65 \<or> (fever p \<and> cough p)) \<longrightarrow> triage_risk_model p = ''low'')
   \<and> triage_risk_model \<lparr>name = None, age = 80, sex = Female, fever = True, cough = False,
        shortness_of_breath = False, antecedents = None\<rparr> = ''high''"
  by (simp add: triage_risk_model_def triage_rules_spec_def)

theorem triage_risk_model_decision_list_witness:
  "triage_risk_model \<lparr>name = None, age = 80, sex = Female, fever = True, cough = False,
        shortness_of_breath = False, antecedents = None\<rparr> = ''high''
   \<and> triage_risk_model \<lparr>name = None, age = 30, sex = Male, fever = False, cough = True,
        shortness_of_breath = True, antecedents = None\<rparr> = ''high''
   \<and> triage_risk_model \<lparr>name = None, age = 66, sex = Other, fever = False, cough = False,
        shortness_of_breath = False, antecedents = None\<rparr> = ''medium''
   \<and> triage_risk_model \<lparr>name = None, age = 30, sex = Male, fever = False, cough = False,
        shortness_of_breath = False, antecedents = None\<rparr> = ''low''"
  using triage_risk_model_decision_list [of "\<lparr>name = None, age = 80, sex = Female, fever = True,
        cough = False, shortness_of_breath = False, antecedents = None\<rparr>"]
    triage_risk_model_decision_list [of "\<lparr>name = None, age = 30, sex = Male, fever = False,
        cough = True, shortness_of_breath = True, antecedents = None\<rparr>"]
    triage_risk_model_decision_list [of "\<lparr>name = None, age = 66, sex = Other, fever = False,
        cough = False, shortness_of_breath = False, antecedents = None\<rparr>"]
    triage_risk_model_decision_list [of "\<lparr>name = None, age = 30, sex = Male, fever = False,
        cough = False, shortness_of_breath = False, antecedents = None\<rparr>"]
  by (simp add: triage_rules_spec_def)

section \<open>Properties of the selection loop\<close>





lemma grids_names:
  "map fst (grids L pre sc cv) =
     ''RandomForest''
       # (case import_xgboost L of Inl e \<Rightarrow> [] | Inr u \<Rightarrow> [''XGBoost''])
       @ (case import_lightgbm L of Inl e \<Rightarrow> [] | Inr u \<Rightarrow> [''LightGBM''])"
  by (simp add: grids_def grid_rf_def grid_xgb_def grid_lgbm_def split: sum.splits)



section \<open>Properties of training\<close>

lemma select_loop_nothing_fitted:
  assumes "\<forall>(n, g) \<in> set gl. case fit g of Inl e \<Rightarrow> True
              | Inr r \<Rightarrow> \<not> float_gt (gs_best_score r) bs"
    and "select_loop fit gl (bn, bs, bp, be) = Inr b"
  shows "b = (bn, bs, bp, be)"
  using assms
proof (induction gl)
  case Nil
  then show ?case by simp
next
  case (Cons c gl)
  obtain cn cg where c: "c = (cn, cg)" by (cases c)
  from Cons.prems(2) c obtain r where fitr: "fit cg = Inr r"
    by (cases "fit cg") auto
  from Cons.prems(1) c fitr have ngt: "\<not> float_gt (gs_best_score r) bs" by simp
  from Cons.prems(2) c fitr ngt have "select_loop fit gl (bn, bs, bp, be) = Inr b" by simp
  moreover from Cons.prems(1) have "\<forall>(n, g) \<in> set gl. case fit g of Inl e \<Rightarrow> True
              | Inr r \<Rightarrow> \<not> float_gt (gs_best_score r) bs" by simp
  ultimately show ?case by (rule Cons.IH [rotated])
qed

lemma no_fitted_result_fails:
  assumes "no_fitted_result L recs sc cv"
  shows "\<exists>e. train_select_serialize L recs sc cv = Inl e"
proof (cases "records_to_dataframe recs")
  case (Inl e)
  then show ?thesis by (simp add: train_select_serialize_def)
next
  case (Inr xy)
  obtain X_df y where xy: "xy = (X_df, y)" by (cases xy)
  let ?fit = "\<lambda>gs. gs_fit L gs X_df y"
  let ?gl = "grids L (build_preprocessor (is_numeric_dtype L) X_df) sc cv"
  from assms Inr xy have all: "\<forall>(n, g) \<in> set ?gl. case ?fit g of Inl e \<Rightarrow> True
              | Inr r \<Rightarrow> \<not> float_gt (gs_best_score r) NegInf"
    by (simp add: no_fitted_result_def)
  show ?thesis
  proof (cases "select_loop ?fit ?gl ('''', NegInf, [], None)")
    case (Inl e)
    with Inr xy show ?thesis by (simp add: train_select_serialize_def)
  next
    case loop: (Inr b)
    from select_loop_nothing_fitted [OF all loop] have "b = ('''', NegInf, [], None)" .
    with Inr xy loop show ?thesis by (simp add: train_select_serialize_def)
  qed
qed

text \<open>
  C5. If no candidate produces a fitted result (the records make no table, for instance
  because there are none, or every fit raises or has a score that does not exceed
  the initial minus infinity), \<open>train\<close> ends with an exception for the caller; and
  whenever \<open>train\<close> ends with an exception, the database is the one it started from:
  no row is added and no active row is replaced or set inactive.
\<close>

theorem train_failure_leaves_database:
  "(no_fitted_result L (records req) (scoring req) (cv_folds req)
      \<longrightarrow> (\<exists>e. train L now req db = (Inl e, db)))
   \<and> (records req = [] \<longrightarrow> (\<exists>e. train L now req db = (Inl e, db)))
   \<and> (\<forall>e db'. train L now req db = (Inl e, db') \<longrightarrow> db' = db)"
proof (intro conjI impI allI)
  assume "no_fitted_result L (records req) (scoring req) (cv_folds req)"
  from no_fitted_result_fails [OF this]
  show "\<exists>e. train L now req db = (Inl e, db)" by (auto simp: train_def)
next
  assume "records req = []"
  then show "\<exists>e. train L now req db = (Inl e, db)"
    by (simp add: train_def train_select_serialize_def records_to_dataframe_def)
next
  fix e db'
  assume "train L now req db = (Inl e, db')"
  then show "db' = db"
    by (cases "train_select_serialize L (records req) (scoring req) (cv_folds req)")
      (auto simp: train_def Let_def)
qed

lemma fold_max_ge: "(a::int) \<le> fold max xs a"
proof (induction xs arbitrary: a)
  case Nil
  then show ?case by simp
next
  case (Cons y ys)
  have "a \<le> max y a" by simp
  also have "max y a \<le> fold max ys (max y a)" by (rule Cons.IH)
  finally show ?case by simp
qed

lemma fold_max_mem: "(x::int) \<in> set xs \<Longrightarrow> x \<le> fold max xs a"
proof (induction xs arbitrary: a)
  case Nil
  then show ?case by simp
next
  case (Cons y ys)
  show ?case
  proof (cases "x = y")
    case True
    have "max y a \<le> fold max ys (max y a)" by (rule fold_max_ge)
    with True show ?thesis by simp
  next
    case False
    with Cons show ?thesis by simp
  qed
qed

lemma next_id_fresh: "next_id ids \<notin> set ids"
proof
  assume "next_id ids \<in> set ids"
  from fold_max_mem [OF this, of 0] show False by (simp add: next_id_def)
qed

lemma filter_deactivated: "filter m_active (map (\<lambda>m. m\<lparr>m_active := False\<rparr>) ms) = []"
  by (induction ms) auto

lemma deactivate_map:
  "map (\<lambda>m. if m_active m then m\<lparr>m_active := False\<rparr> else m) ms = map (\<lambda>m. m\<lparr>m_active := False\<rparr>) ms"
  by (induction ms) auto

text \<open>
  C6. After a successful \<open>train\<close> the table of models is the old rows, all inactive
  and otherwise unchanged, followed by one new row; the active rows are exactly that
  new row, whose fresh id the response carries. Both writes are one transition of the
  database.
\<close>

theorem train_success_one_active:
  assumes "train L now req db = (Inr resp, db')"
  shows "\<exists>new. models db' = map (\<lambda>m. m\<lparr>m_active := False\<rparr>) (models db) @ [new]
           \<and> filter m_active (models db') = [new]
           \<and> m_id new = model_id resp
           \<and> m_id new \<notin> m_id ` set (models db)
           \<and> m_name new = best_model_name resp
           \<and> m_created_at new = now
           \<and> predictions db' = predictions db"
proof -
  from assms obtain bn bs bp art where
    t: "train_select_serialize L (records req) (scoring req) (cv_folds req) = Inr (bn, bs, bp, art)"
    by (cases "train_select_serialize L (records req) (scoring req) (cv_folds req)")
      (auto simp: train_def)
  let ?new = "\<lparr>m_id = next_id (map m_id (models db)), m_name = bn,
                 m_created_at = now, m_metrics = (bs, bp),
                 m_artifact = art, m_active = True\<rparr>"
  from assms t have db': "db' = db\<lparr>models := map (\<lambda>m. m\<lparr>m_active := False\<rparr>) (models db) @ [?new]\<rparr>"
    and resp: "resp = \<lparr>best_model_name = bn, best_score = bs, best_params = bp, model_id = m_id ?new\<rparr>"
    by (simp_all add: train_def Let_def deactivate_map)
  have fresh: "m_id ?new \<notin> m_id ` set (models db)"
    using next_id_fresh [of "map m_id (models db)"] by simp
  show ?thesis
    by (intro exI[of _ ?new]) (use db' resp fresh in \<open>simp add: filter_deactivated\<close>)
qed

theorem train_failure_leaves_database_witness:
  "no_fitted_result nan_libs (records example_request) (scoring example_request) (cv_folds example_request)
   \<and> train nan_libs 30 example_request example_db
       = (Inl (RuntimeError ''No estimator was trained successfully''), example_db)
   \<and> records (example_request\<lparr>records := []\<rparr>) = []
   \<and> train example_libs 30 (example_request\<lparr>records := []\<rparr>) example_db
       = (Inl (KeyError ''label''), example_db)"
proof -
  have a: "no_fitted_result nan_libs (records example_request) (scoring example_request)
      (cv_folds example_request)"
    by (simp add: no_fitted_result_def example_request_def example_records_def
        records_to_dataframe_def nan_libs_def example_libs_def grids_def grid_rf_def
        grid_xgb_def grid_lgbm_def)
  have b: "records (example_request\<lparr>records := []\<rparr>) = []" by simp
  from a train_failure_leaves_database [of nan_libs example_request 30 example_db]
  obtain e where e: "train nan_libs 30 example_request example_db = (Inl e, example_db)"
    by blast
  have "fst (train nan_libs 30 example_request example_db)
      = Inl (RuntimeError ''No estimator was trained successfully'')"
    by (simp add: train_def train_select_serialize_def example_request_def example_records_def
        records_to_dataframe_def nan_libs_def example_libs_def grids_def grid_rf_def
        grid_xgb_def grid_lgbm_def)
  with e have c: "train nan_libs 30 example_request example_db
       = (Inl (RuntimeError ''No estimator was trained successfully''), example_db)" by simp
  from b train_failure_leaves_database [of example_libs "example_request\<lparr>records := []\<rparr>" 30 example_db]
  obtain e' where e': "train example_libs 30 (example_request\<lparr>records := []\<rparr>) example_db
      = (Inl e', example_db)"
    by blast
  have "fst (train example_libs 30 (example_request\<lparr>records := []\<rparr>) example_db)
      = Inl (KeyError ''label'')"
    by (simp add: train_def train_select_serialize_def records_to_dataframe_def)
  with e' have d: "train example_libs 30 (example_request\<lparr>records := []\<rparr>) example_db
       = (Inl (KeyError ''label''), example_db)" by simp
  from a b c d show ?thesis by simp
qed

theorem train_success_one_active_witness:
  "\<exists>resp db'. train example_libs 30 example_request example_db = (Inr resp, db')
     \<and> model_id resp = 4 \<and> best_model_name resp = ''XGBoost''
     \<and> filter m_active (models db')
         = [\<lparr>m_id = 4, m_name = ''XGBoost'', m_created_at = 30,
             m_metrics = (Finite 0.9, [(''clf__max_depth'', VInt 3)]),
             m_artifact = [2], m_active = True\<rparr>]
     \<and> length (models db') = 4"
proof -
  let ?new = "\<lparr>m_id = 4, m_name = ''XGBoost'', m_created_at = 30,
             m_metrics = (Finite 0.9, [(''clf__max_depth'', VInt 3)]),
             m_artifact = [2], m_active = True\<rparr>"
  let ?resp = "\<lparr>best_model_name = ''XGBoost'', best_score = Finite 0.9,
      best_params = [(''clf__max_depth'', VInt 3)], model_id = 4\<rparr>"
  let ?db' = "example_db\<lparr>models := map (\<lambda>m. if m_active m then m\<lparr>m_active := False\<rparr> else m)
      (models example_db) @ [?new]\<rparr>"
  have ts: "train_select_serialize example_libs example_records (Some ''f1_macro'') (Some 3)
     = Inr (''XGBoost'', Finite 0.9, [(''clf__max_depth'', VInt 3)], [2])"
    by (simp add: train_select_serialize_def records_to_dataframe_def example_records_def
      example_libs_def grids_def grid_rf_def grid_xgb_def grid_lgbm_def example_fit_def)
  have ev: "train example_libs 30 example_request example_db = (Inr ?resp, ?db')"
    by (simp add: train_def example_request_def ts)
      (simp add: example_db_def example_artifact_def next_id_def)
  from train_success_one_active [OF ev] obtain new where
    n: "models ?db' = map (\<lambda>m. m\<lparr>m_active := False\<rparr>) (models example_db) @ [new]"
       "filter m_active (models ?db') = [new]"
    by blast
  from n(1) have "new = ?new" by simp
  with n(2) have f: "filter m_active (models ?db') = [?new]" by simp
  have l: "length (models ?db') = 4" by (simp add: example_db_def)
  show ?thesis
    by (intro exI[of _ ?resp] exI[of _ ?db'] conjI) (use ev f l in simp_all)
qed

section \<open>Properties of inference\<close>

lemma active_model_query_latest:
  assumes "\<exists>m \<in> set ms. m_active m"
  shows "\<exists>am. active_model_query ms = Some am \<and> am \<in> set ms \<and> m_active am
           \<and> (\<forall>m \<in> set ms. m_active m \<longrightarrow> m_created_at m \<le> m_created_at am)"
proof -
  let ?f = "\<lambda>m. - m_created_at m"
  let ?xs = "sort_key ?f (filter m_active ms)"
  have set_xs: "set ?xs = {m \<in> set ms. m_active m}" by simp
  with assms have "?xs \<noteq> []" by (metis (mono_tags, lifting) empty_iff mem_Collect_eq set_empty)
  then obtain am rest where xs: "?xs = am # rest" by (cases ?xs) auto
  have "sorted (map ?f ?xs)" by (rule sorted_sort_key)
  with xs have le: "\<forall>x \<in> set rest. ?f am \<le> ?f x" by simp
  from set_xs xs have mem: "am \<in> set ms" "m_active am" by auto
  have "\<forall>m \<in> set ms. m_active m \<longrightarrow> m_created_at m \<le> m_created_at am"
  proof (intro ballI impI)
    fix m assume "m \<in> set ms" "m_active m"
    with set_xs xs have "m = am \<or> m \<in> set rest" by auto
    with le show "m_created_at m \<le> m_created_at am" by auto
  qed
  moreover from xs have "active_model_query ms = Some am" by (simp add: active_model_query_def)
  ultimately show ?thesis using mem by blast
qed

lemma simple_risk_model_valid: "simple_risk_model p \<in> RiskLevel"
  by (simp add: simple_risk_model_def RiskLevel_def)

lemma predict_try_valid: "predict_try L am p = Inr r \<Longrightarrow> r \<in> RiskLevel"
  using simple_risk_model_valid [of p]
  by (auto simp: predict_try_def RiskLevel_def split: option.splits sum.splits if_splits)

lemma predict_risk_valid:
  "(case predict_try L am p of Inl e \<Rightarrow> simple_risk_model p | Inr r \<Rightarrow> r) \<in> RiskLevel"
  using predict_try_valid [of L am p] simple_risk_model_valid [of p]
  by (cases "predict_try L am p") auto

lemma predict_response:
  "fst (predict L now p db) =
     Inr \<lparr>risk_level = (case predict_try L (active_model_query (models db)) p of
                          Inl e \<Rightarrow> simple_risk_model p | Inr r \<Rightarrow> r),
          record_id = next_id (map p_id (predictions db)), created_at = now\<rparr>"
  using predict_risk_valid [where L = L and am = "active_model_query (models db)" and p = p]
  by (simp add: predict_def Let_def)

text \<open>
  C10. When at least one row of models is active, however many, \<open>predict\<close> consults
  one active row whose \<open>created_at\<close> is the latest among the active rows; when one
  active row is strictly later than every other, it is that row. Consulting means:
  joblib loads the bytes of that row's artifact, the loaded model predicts on the
  input's row, and the answer of \<open>predict\<close> is that label when it is a risk level, and
  the rule engine's answer when the load raises, the prediction raises or the label is
  not a risk level. No other row's artifact enters the answer.
\<close>

theorem predict_consults_latest_active:
  assumes "\<exists>m \<in> set (models db). m_active m"
  shows "\<exists>am resp. active_model_query (models db) = Some am
           \<and> am \<in> set (models db) \<and> m_active am
           \<and> (\<forall>m \<in> set (models db). m_active m \<longrightarrow> m_created_at m \<le> m_created_at am)
           \<and> (\<forall>am'. am' \<in> set (models db) \<and> m_active am'
                 \<and> (\<forall>m \<in> set (models db). m_active m \<and> m \<noteq> am'
                       \<longrightarrow> m_created_at m < m_created_at am')
                 \<longrightarrow> am = am')
           \<and> fst (predict L now p db) = Inr resp
           \<and> risk_level resp =
               (case joblib_load L (m_artifact am) of
                  Inl e \<Rightarrow> simple_risk_model p
                | Inr model \<Rightarrow>
                    (case model_predict L model (DataFrame_row (predict_row p)) of
                       Inl e \<Rightarrow> simple_risk_model p
                     | Inr lbl \<Rightarrow>
                         if lbl \<in> {''low'', ''medium'', ''high''} then lbl
                         else simple_risk_model p))"
proof -
  from active_model_query_latest [OF assms] obtain am where
    am: "active_model_query (models db) = Some am" "am \<in> set (models db)" "m_active am"
      "\<forall>m \<in> set (models db). m_active m \<longrightarrow> m_created_at m \<le> m_created_at am"
    by blast
  have uniq: "\<forall>am'. am' \<in> set (models db) \<and> m_active am'
                 \<and> (\<forall>m \<in> set (models db). m_active m \<and> m \<noteq> am'
                       \<longrightarrow> m_created_at m < m_created_at am')
                 \<longrightarrow> am = am'"
  proof (intro allI impI)
    fix am'
    assume h: "am' \<in> set (models db) \<and> m_active am'
                 \<and> (\<forall>m \<in> set (models db). m_active m \<and> m \<noteq> am'
                       \<longrightarrow> m_created_at m < m_created_at am')"
    show "am = am'"
    proof (rule ccontr)
      assume "am \<noteq> am'"
      with h am(2,3) have "m_created_at am < m_created_at am'" by blast
      moreover from h am(4) have "m_created_at am' \<le> m_created_at am" by blast
      ultimately show False by simp
    qed
  qed
  let ?risk = "case joblib_load L (m_artifact am) of
                  Inl e \<Rightarrow> simple_risk_model p
                | Inr model \<Rightarrow>
                    (case model_predict L model (DataFrame_row (predict_row p)) of
                       Inl e \<Rightarrow> simple_risk_model p
                     | Inr lbl \<Rightarrow>
                         if lbl \<in> {''low'', ''medium'', ''high''} then lbl
                         else simple_risk_model p)"
  have risk: "(case predict_try L (Some am) p of
                 Inl e \<Rightarrow> simple_risk_model p | Inr r \<Rightarrow> r) = ?risk"
    by (simp add: predict_try_def load_model_from_bytes_def split: sum.splits)
  let ?resp = "\<lparr>risk_level = ?risk,
          record_id = next_id (map p_id (predictions db)), created_at = now\<rparr>"
  have "fst (predict L now p db) = Inr ?resp"
    using predict_response [where L = L and now = now and p = p and db = db] am(1) risk
    by simp
  then show ?thesis
    by (intro exI[of _ am] exI[of _ ?resp]) (use am uniq in simp)
qed

theorem predict_consults_latest_active_witness:
  "(\<exists>m \<in> set (models latest_high_db). m_active m)
   \<and> length (filter m_active (models latest_high_db)) = 2
   \<and> active_model_query (models latest_high_db) = Some (example_artifact 2 20 [2] True)
   \<and> joblib_load example_libs (m_artifact (example_artifact 2 20 [2] True)) = Inr [2]
   \<and> model_predict example_libs [2] (DataFrame_row (predict_row example_payload)) = Inr ''high''
   \<and> simple_risk_model example_payload = ''medium''
   \<and> (\<exists>resp. fst (predict example_libs 0 example_payload latest_high_db) = Inr resp
         \<and> risk_level resp = ''high'')"
proof -
  let ?am = "example_artifact 2 20 [2] True"
  have a: "\<exists>m \<in> set (models latest_high_db). m_active m"
    by (simp add: latest_high_db_def example_artifact_def)
  have c: "length (filter m_active (models latest_high_db)) = 2"
    by (simp add: latest_high_db_def example_artifact_def)
  have l: "joblib_load example_libs (m_artifact ?am) = Inr [2]"
    by (simp add: example_libs_def example_artifact_def)
  have m: "model_predict example_libs [2] (DataFrame_row (predict_row example_payload)) = Inr ''high''"
    by (simp add: example_libs_def)
  have s: "simple_risk_model example_payload = ''medium''"
    by (simp add: simple_risk_model_def example_payload_def)
  from predict_consults_latest_active [OF a, where L = example_libs and now = 0 and p = example_payload]
  obtain am resp where am: "active_model_query (models latest_high_db) = Some am"
      "\<forall>am'. am' \<in> set (models latest_high_db) \<and> m_active am'
                 \<and> (\<forall>m \<in> set (models latest_high_db). m_active m \<and> m \<noteq> am'
                       \<longrightarrow> m_created_at m < m_created_at am')
                 \<longrightarrow> am = am'"
      "fst (predict example_libs 0 example_payload latest_high_db) = Inr resp"
      "risk_level resp =
               (case joblib_load example_libs (m_artifact am) of
                  Inl e \<Rightarrow> simple_risk_model example_payload
                | Inr model \<Rightarrow>
                    (case model_predict example_libs model (DataFrame_row (predict_row example_payload)) of
                       Inl e \<Rightarrow> simple_risk_model example_payload
                     | Inr lbl \<Rightarrow>
                         if lbl \<in> {''low'', ''medium'', ''high''} then lbl
                         else simple_risk_model example_payload))"
    by blast
  have "?am \<in> set (models latest_high_db) \<and> m_active ?am
                 \<and> (\<forall>m \<in> set (models latest_high_db). m_active m \<and> m \<noteq> ?am
                       \<longrightarrow> m_created_at m < m_created_at ?am)"
    by (simp add: latest_high_db_def example_artifact_def)
  with am(2) have eq: "am = ?am" by blast
  with am(1) have b: "active_model_query (models latest_high_db) = Some ?am" by simp
  from am(4) eq l m have "risk_level resp = ''high''" by simp
  with am(3) have r: "\<exists>resp. fst (predict example_libs 0 example_payload latest_high_db) = Inr resp
         \<and> risk_level resp = ''high''" by blast
  from a c b l m s r show ?thesis by blast
qed



section \<open>Properties of the candidate registry\<close>

text \<open>
  C9. Whatever the two optional imports do, the list of candidates starts with
  RandomForest, so it is never empty; XGBoost and LightGBM follow exactly when their
  import succeeds; a failed import is answered with no learner and no grid, not with
  an exception; and with both imports failing, training goes on with RandomForest
  alone and returns its result once its fit has a score.
\<close>

theorem grids_baseline_always_registered:
  "map fst (grids L pre sc cv) =
     ''RandomForest''
       # (case import_xgboost L of Inl e \<Rightarrow> [] | Inr u \<Rightarrow> [''XGBoost''])
       @ (case import_lightgbm L of Inl e \<Rightarrow> [] | Inr u \<Rightarrow> [''LightGBM''])
   \<and> grids L pre sc cv \<noteq> []
   \<and> (\<forall>e. grid_xgb (Inl e) = (None, []))
   \<and> (\<forall>e. grid_lgbm (Inl e) = (None, []))
   \<and> (\<forall>e1 e2 X_df y r.
         import_xgboost L = Inl e1 \<and> import_lightgbm L = Inl e2
       \<and> records_to_dataframe recs = Inr (X_df, y)
       \<and> gs_fit L \<lparr>gs_pre = build_preprocessor (is_numeric_dtype L) X_df,
                   gs_clf = RandomForestClassifier, gs_param_grid = snd grid_rf,
                   gs_cv = cv, gs_scoring = sc\<rparr> X_df y = Inr r
       \<and> float_gt (gs_best_score r) NegInf
       \<longrightarrow> train_select_serialize L recs sc cv =
             (case joblib_dump L (gs_best_estimator r) of
                Inl e \<Rightarrow> Inl e
              | Inr b \<Rightarrow> Inr (''RandomForest'', gs_best_score r, gs_best_params r, b)))"
proof (intro conjI allI impI)
  show "map fst (grids L pre sc cv) =
     ''RandomForest''
       # (case import_xgboost L of Inl e \<Rightarrow> [] | Inr u \<Rightarrow> [''XGBoost''])
       @ (case import_lightgbm L of Inl e \<Rightarrow> [] | Inr u \<Rightarrow> [''LightGBM''])"
    by (rule grids_names)
  then show "grids L pre sc cv \<noteq> []" by auto
  show "grid_xgb (Inl e) = (None, [])" for e by (simp add: grid_xgb_def)
  show "grid_lgbm (Inl e) = (None, [])" for e by (simp add: grid_lgbm_def)
next
  fix e1 e2 X_df y r
  assume h: "import_xgboost L = Inl e1 \<and> import_lightgbm L = Inl e2
       \<and> records_to_dataframe recs = Inr (X_df, y)
       \<and> gs_fit L \<lparr>gs_pre = build_preprocessor (is_numeric_dtype L) X_df,
                   gs_clf = RandomForestClassifier, gs_param_grid = snd grid_rf,
                   gs_cv = cv, gs_scoring = sc\<rparr> X_df y = Inr r
       \<and> float_gt (gs_best_score r) NegInf"
  then have g: "grids L (build_preprocessor (is_numeric_dtype L) X_df) sc cv =
      [(''RandomForest'', \<lparr>gs_pre = build_preprocessor (is_numeric_dtype L) X_df,
                   gs_clf = RandomForestClassifier, gs_param_grid = snd grid_rf,
                   gs_cv = cv, gs_scoring = sc\<rparr>)]"
    by (simp add: grids_def grid_rf_def grid_xgb_def grid_lgbm_def)
  from h show "train_select_serialize L recs sc cv =
             (case joblib_dump L (gs_best_estimator r) of
                Inl e \<Rightarrow> Inl e
              | Inr b \<Rightarrow> Inr (''RandomForest'', gs_best_score r, gs_best_params r, b))"
    by (simp add: train_select_serialize_def g)
qed

theorem grids_baseline_always_registered_witness:
  "import_xgboost rf_only_libs = Inl (ImportError ''No module named xgboost'')
   \<and> import_lightgbm rf_only_libs = Inl (ImportError ''No module named lightgbm'')
   \<and> map fst (grids rf_only_libs \<lparr>numeric_cols = [], categorical_cols = []\<rparr> None None)
       = [''RandomForest'']
   \<and> train_select_serialize rf_only_libs example_records None None
       = Inr (''RandomForest'', Finite 0.8, [(''clf__n_estimators'', VInt 100)], [1])"
proof -
  have i: "import_xgboost rf_only_libs = Inl (ImportError ''No module named xgboost'')"
    "import_lightgbm rf_only_libs = Inl (ImportError ''No module named lightgbm'')"
    by (simp_all add: rf_only_libs_def example_libs_def)
  obtain X_df y where xy: "records_to_dataframe example_records = Inr (X_df, y)"
    by (simp add: records_to_dataframe_def example_records_def)
  let ?r = "\<lparr>gs_best_score = Finite 0.8, gs_best_params = [(''clf__n_estimators'', VInt 100)],
               gs_best_estimator = [1]\<rparr> :: bytes fit_result"
  have f: "gs_fit rf_only_libs \<lparr>gs_pre = build_preprocessor (is_numeric_dtype rf_only_libs) X_df,
                   gs_clf = RandomForestClassifier, gs_param_grid = snd grid_rf,
                   gs_cv = None, gs_scoring = None\<rparr> X_df y = Inr ?r"
    by (simp add: rf_only_libs_def example_libs_def example_fit_def)
  have d: "joblib_dump rf_only_libs [1] = Inr [1]"
    by (simp add: rf_only_libs_def example_libs_def)
  note t = grids_baseline_always_registered [where L = rf_only_libs and recs = example_records
      and sc = None and cv = None and pre = "\<lparr>numeric_cols = [], categorical_cols = []\<rparr>"]
  from t i have n: "map fst (grids rf_only_libs \<lparr>numeric_cols = [], categorical_cols = []\<rparr> None None)
       = [''RandomForest'']" by simp
  have gt: "float_gt (gs_best_score ?r) NegInf" by simp
  note t5 = t [THEN conjunct2, THEN conjunct2, THEN conjunct2, THEN conjunct2, rule_format,
      of _ _ X_df y ?r]
  from t5 [OF conjI [OF i(1) conjI [OF i(2) conjI [OF xy conjI [OF f gt]]]]]
  have "train_select_serialize rf_only_libs example_records None None =
             (case joblib_dump rf_only_libs (gs_best_estimator ?r) of
                Inl e \<Rightarrow> Inl e
              | Inr b \<Rightarrow> Inr (''RandomForest'', gs_best_score ?r, gs_best_params ?r, b))" .
  with d have "train_select_serialize rf_only_libs example_records None None
       = Inr (''RandomForest'', Finite 0.8, [(''clf__n_estimators'', VInt 100)], [1])" by simp
  with i n show ?thesis by simp
qed

section \<open>Properties of the feature assembly\<close>

lemma json_normalize_missing_upcasts:
  "json_normalize [Some [(''a'', VInt 1)], Some [(''b'', VInt 2)], None]
     = [(''a'', [VFloat (Finite 1), VFloat NaN, VFloat NaN]),
        (''b'', [VFloat NaN, VFloat (Finite 2), VFloat NaN])]"
  by (simp add: json_normalize_def convert_objects_def first_seen_def)

text \<open>
  C7. A record whose features hold the key amount: the training table keeps the
  top-level amount column and adds the features' column of the same name (two columns,
  nothing overwritten), while the row built at inference time has one amount column,
  holding the features' value.
\<close>

theorem records_to_dataframe_keeps_both_columns:
  "records_to_dataframe
     [\<lparr>amount = Finite 5, category = ''a'', features = Some [(''amount'', VInt 7)], label = ''low''\<rparr>]
     = Inr ([(''amount'', [VFloat (Finite 5)]), (''category'', [VStr ''a'']), (''amount'', [VInt 7])],
            [''low''])
   \<and> DataFrame_row (predict_row
        \<lparr>amount = Finite 5, category = ''a'', features = Some [(''amount'', VInt 7)]\<rparr>)
     = [(''amount'', [VInt 7]), (''category'', [VStr ''a''])]"
  by (simp add: records_to_dataframe_def json_normalize_def convert_objects_def first_seen_def
      predict_row_def DataFrame_row_def)

lemma dict_set_keys:
  "map fst (dict_set k v d) = (if k \<in> set (map fst d) then map fst d else map fst d @ [k])"
  by (induction d) force+

lemma dict_set_distinct: "distinct (map fst d) \<Longrightarrow> distinct (map fst (dict_set k v d))"
  by (simp add: dict_set_keys)

lemma dict_set_map_of: "map_of (dict_set k v d) = (map_of d)(k \<mapsto> v)"
  by (induction d) (auto simp: fun_eq_iff)

lemma dict_update_distinct: "distinct (map fst d) \<Longrightarrow> distinct (map fst (dict_update d e))"
  by (induction d e rule: dict_update.induct) (auto simp: dict_set_distinct)

lemma dict_update_map_of:
  "distinct (map fst e) \<Longrightarrow> map_of (dict_update d e) = map_of d ++ map_of e"
proof (induction d e rule: dict_update.induct)
  case (1 d)
  then show ?case by simp
next
  case (2 d k v e)
  then have "map_of e k = None" by (simp add: map_of_eq_None_iff)
  with 2 show ?case
    by (auto simp: dict_set_map_of fun_eq_iff map_add_def split: option.splits)
qed

text \<open>
  The row of \<open>predict\<close> has one entry per name, and an entry of the features wins over
  the top-level field of the same name.
\<close>

theorem predict_row_features_overwrite:
  assumes "features p = Some f" and "distinct (map fst f)"
  shows "distinct (map fst (predict_row p))
       \<and> map_of (predict_row p) k =
           (case map_of f k of
              Some v \<Rightarrow> Some v
            | None \<Rightarrow> map_of [(''amount'', VFloat (amount p)), (''category'', VStr (category p))] k)"
  using assms
  by (simp add: predict_row_def dict_update_distinct dict_update_map_of map_add_def
      split: option.splits)

theorem predict_row_features_overwrite_witness:
  "features \<lparr>amount = Finite 5, category = ''a'', features = Some [(''amount'', VInt 7)]\<rparr>
     = Some [(''amount'', VInt 7)]
   \<and> distinct (map fst [(''amount'', VInt 7)])
   \<and> map_of (predict_row \<lparr>amount = Finite 5, category = ''a'',
        features = Some [(''amount'', VInt 7)]\<rparr>) ''amount'' = Some (VInt 7)"
  using predict_row_features_overwrite [of "\<lparr>amount = Finite 5, category = ''a'',
        features = Some [(''amount'', VInt 7)]\<rparr>" "[(''amount'', VInt 7)]" "''amount''"]
  by simp

end
